theory Spec2Isabelle
  imports Main
begin

section \<open>Data model of the pod controller\<close>

text \<open>
  The controller of \<^verbatim>\<open>pkg/controller/controller.go\<close> reads pods from an indexer, looks for
  containers stuck in a crash loop and posts an alert to a chat channel, at most once per
  back-off window and pod. Only the fields of the Kubernetes objects that the controller
  reads are kept.
\<close>

datatype error = ErrSyntax | ErrRange | Err string

text \<open>
  A \<^verbatim>\<open>v1.ContainerStatus\<close>: \<open>Waiting\<close> is \<^verbatim>\<open>State.Waiting\<close> (\<open>None\<close> for the nil pointer, else
  its \<^verbatim>\<open>Reason\<close>), \<open>LastTerminated\<close> is \<^verbatim>\<open>LastTerminationState.Terminated\<close> likewise.
\<close>

record ContainerStatus =
  ContainerName :: string
  Ready :: bool
  Waiting :: "string option"
  LastTerminated :: "string option"

record Pod =
  Namespace :: string
  Name :: string
  Annotations :: "string \<rightharpoonup> string"
  ContainerStatuses :: "ContainerStatus list"

text \<open>Reading a Go map at a key it does not hold gives the zero value, the empty string.\<close>

definition GetAnnotation :: "Pod \<Rightarrow> string \<Rightarrow> string" where
  "GetAnnotation pod k = (case Annotations pod k of None \<Rightarrow> [] | Some v \<Rightarrow> v)"

text \<open>
  A \<^verbatim>\<open>model.SlackAttachment\<close> with the fields the controller fills in; each field of
  \<open>Fields\<close> is a pair of title and value.
\<close>

record SlackAttachment =
  Color :: string
  Text :: string
  Title :: string
  Fields :: "(string \<times> string) list"

subsection \<open>Time\<close>

text \<open>
  A \<^verbatim>\<open>time.Time\<close> is the number of nanoseconds since Go's zero time (1 January of year 1),
  a \<^verbatim>\<open>time.Duration\<close> a signed 64-bit count of nanoseconds. \<^verbatim>\<open>Time.Sub\<close> saturates at
  the ends of the duration range, and multiplying durations wraps around.
\<close>

type_synonym time = int
type_synonym duration = int

definition maxDuration :: duration where
  "maxDuration = 2 ^ 63 - 1"

definition minDuration :: duration where
  "minDuration = - (2 ^ 63)"

definition zeroTime :: time where
  "zeroTime = 0"

definition Sub :: "time \<Rightarrow> time \<Rightarrow> duration" where
  "Sub t u =
     (let d = t - u
      in if maxDuration < d then maxDuration
         else if d < minDuration then minDuration
         else d)"

definition wrap64 :: "int \<Rightarrow> int" where
  "wrap64 x = (x + 2 ^ 63) mod 2 ^ 64 - 2 ^ 63"

definition Second :: duration where
  "Second = 1000000000"

definition Minute :: duration where
  "Minute = 60 * Second"

subsection \<open>strconv.Atoi\<close>

text \<open>
  \<^verbatim>\<open>strconv.Atoi\<close> of the Go library on a 64-bit platform (the image is built for amd64).
  A string of 1 to 18 bytes takes the fast path: an optional sign, then the loop
  \<open>atoiDigits\<close> over the remaining bytes, which stops with a syntax error at a byte that is
  not a decimal digit. Any other string goes to \<^verbatim>\<open>ParseInt(s, 10, 0)\<close>, whose loop
  \<open>parseUintDigits\<close> (of \<^verbatim>\<open>ParseUint\<close>) handles one byte at a time: a syntax error at a byte
  that is not a digit, a range error at the digit where the unsigned 64-bit value
  overflows, whatever follows it. A syntax error comes with the value 0, a range error with
  the nearest bound of \<^verbatim>\<open>int\<close>.
\<close>

definition isDigit :: "char \<Rightarrow> bool" where
  "isDigit ch = (48 \<le> (of_char ch :: nat) \<and> (of_char ch :: nat) \<le> 57)"

definition digitVal :: "char \<Rightarrow> nat" where
  "digitVal ch = of_char ch - 48"

fun atoiDigits :: "string \<Rightarrow> int \<Rightarrow> int option" where
  "atoiDigits [] n = Some n"
| "atoiDigits (ch # s) n =
     (if isDigit ch then atoiDigits s (n * 10 + int (digitVal ch)) else None)"

fun parseUintDigits :: "string \<Rightarrow> nat \<Rightarrow> error + nat" where
  "parseUintDigits [] n = Inr n"
| "parseUintDigits (ch # s) n =
     (if \<not> isDigit ch then Inl ErrSyntax
      else if (2 ^ 64 - 1) div 10 + 1 \<le> n then Inl ErrRange
      else if 2 ^ 64 \<le> n * 10 + digitVal ch then Inl ErrRange
      else parseUintDigits s (n * 10 + digitVal ch))"

definition ParseUint :: "string \<Rightarrow> nat \<times> error option" where
  "ParseUint s =
     (if s = [] then (0, Some ErrSyntax)
      else case parseUintDigits s 0 of
        Inl e \<Rightarrow> (if e = ErrRange then 2 ^ 64 - 1 else 0, Some e)
      | Inr n \<Rightarrow> (n, None))"

definition ParseInt :: "string \<Rightarrow> int \<times> error option" where
  "ParseInt s0 =
     (if s0 = [] then (0, Some ErrSyntax)
      else
        (let neg = (hd s0 = CHR ''-'');
             s = (if hd s0 = CHR ''+'' \<or> hd s0 = CHR ''-'' then tl s0 else s0)
         in case ParseUint s of
              (un, err) \<Rightarrow>
                if err \<noteq> None \<and> err \<noteq> Some ErrRange then (0, err)
                else if \<not> neg \<and> 2 ^ 63 \<le> un then (2 ^ 63 - 1, Some ErrRange)
                else if neg \<and> 2 ^ 63 < un then (- (2 ^ 63), Some ErrRange)
                else (if neg then - int un else int un, None)))"

definition Atoi :: "string \<Rightarrow> int \<times> error option" where
  "Atoi s0 =
     (if 0 < length s0 \<and> length s0 < 19
      then
        (let s = (if hd s0 = CHR ''-'' \<or> hd s0 = CHR ''+'' then tl s0 else s0)
         in if s = [] then (0, Some ErrSyntax)
            else case atoiDigits s 0 of
              None \<Rightarrow> (0, Some ErrSyntax)
            | Some n \<Rightarrow> (if hd s0 = CHR ''-'' then - n else n, None))
      else ParseInt s0)"

section \<open>The controller\<close>

text \<open>
  What the controller does not own is a parameter: the clock (\<open>clock env n\<close> is the
  \<open>n\<close>-th reading of the clock since the controller started), the log request of the
  Kubernetes client (\<^verbatim>\<open>GetLogs(...).Do().Raw()\<close>, by namespace, pod and container: the bytes
  and the error it returns), the chat client (the outcome of its \<open>n\<close>-th call) and the
  indexer's \<^verbatim>\<open>GetByKey\<close> (the object, \<open>None\<close> for a nil interface value, whether the key
  exists, and an error).
\<close>

record env =
  clock :: "nat \<Rightarrow> time"
  GetLogs :: "string \<Rightarrow> string \<Rightarrow> string \<Rightarrow> string \<times> error option"
  SendAttachements :: "nat \<Rightarrow> SlackAttachment \<Rightarrow> error option"
  GetByKey :: "string \<Rightarrow> Pod option \<times> bool \<times> error option"

text \<open>
  The state the controller changes: its map \<open>timeouts\<close>; of the rate-limited work queue
  the failure count of each key (\<^verbatim>\<open>NumRequeues\<close>) and the keys handed to
  \<^verbatim>\<open>AddRateLimited\<close>, in order; the errors given to \<^verbatim>\<open>runtime.HandleError\<close>; the
  attachments handed to the chat client, each with the outcome of the call; and the number
  of clock readings taken so far.
\<close>

record controller =
  timeouts :: "string \<rightharpoonup> time"
  failures :: "string \<rightharpoonup> nat"
  delayed :: "string list"
  reported :: "error list"
  posts :: "(SlackAttachment \<times> error option) list"
  ticks :: nat

definition NewController :: controller where
  "NewController =
     \<lparr>timeouts = Map.empty, failures = Map.empty, delayed = [], reported = [],
      posts = [], ticks = 0\<rparr>"

text \<open>\<^verbatim>\<open>time.Now\<close>: the next reading of the clock.\<close>

definition Now :: "env \<Rightarrow> controller \<Rightarrow> time \<times> controller" where
  "Now e c = (clock e (ticks c), c\<lparr>ticks := Suc (ticks c)\<rparr>)"

subsection \<open>The work queue's rate limiter\<close>

text \<open>
  The queue of \<^verbatim>\<open>workqueue.NewRateLimitingQueue\<close> counts the failures of each item:
  \<^verbatim>\<open>AddRateLimited\<close> asks the limiter when to add the item again, which counts one more
  failure, and schedules it; \<^verbatim>\<open>Forget\<close> deletes the count; \<^verbatim>\<open>NumRequeues\<close> reads it.
\<close>

definition NumRequeues :: "controller \<Rightarrow> string \<Rightarrow> nat" where
  "NumRequeues c key = (case failures c key of None \<Rightarrow> 0 | Some n \<Rightarrow> n)"

definition AddRateLimited :: "string \<Rightarrow> controller \<Rightarrow> controller" where
  "AddRateLimited key c =
     c\<lparr>failures := (failures c)(key \<mapsto> NumRequeues c key + 1), delayed := delayed c @ [key]\<rparr>"

definition Forget :: "string \<Rightarrow> controller \<Rightarrow> controller" where
  "Forget key c = c\<lparr>failures := (failures c)(key := None)\<rparr>"

definition HandleError :: "error \<Rightarrow> controller \<Rightarrow> controller" where
  "HandleError err c = c\<lparr>reported := reported c @ [err]\<rparr>"

subsection \<open>Annotations and the back-off window\<close>

definition annotationEnableMattermost :: string where
  "annotationEnableMattermost = ''espe.tech/mattermost''"

definition annotationEnableMattermostInform :: string where
  "annotationEnableMattermostInform = ''inform''"

definition hasValidAnnotation :: "Pod \<Rightarrow> bool" where
  "hasValidAnnotation pod =
     (GetAnnotation pod annotationEnableMattermost = annotationEnableMattermostInform)"

definition annotationMattermostBackoff :: string where
  "annotationMattermostBackoff = ''espe.tech/mattermost-backoff''"

definition annotationMattermostBackoffDefault :: duration where
  "annotationMattermostBackoffDefault = Minute * 10"

text \<open>
  The first half of \<^verbatim>\<open>refreshBackoff\<close>: the window is the default unless the annotation is
  not empty and \<^verbatim>\<open>strconv.Atoi\<close> returns an error (\<^verbatim>\<open>err != nil\<close>), in which case it is
  the returned number of seconds.
\<close>

definition backoffWindow :: "Pod \<Rightarrow> duration" where
  "backoffWindow pod =
     (let backoffVal = GetAnnotation pod annotationMattermostBackoff
      in if backoffVal \<noteq> []
         then (case Atoi backoffVal of
                 (seconds, err) \<Rightarrow>
                   if err \<noteq> None then wrap64 (seconds * Second)
                   else annotationMattermostBackoffDefault)
         else annotationMattermostBackoffDefault)"

text \<open>
  Reading \<^verbatim>\<open>c.timeouts\<close> at a name it does not hold gives the zero time. \<^verbatim>\<open>time.Since\<close>
  reads the clock once; when the check passes, \<^verbatim>\<open>time.Now\<close> reads it again for the value
  stored. The map is indexed by \<^verbatim>\<open>pod.GetName()\<close>.
\<close>

definition timeoutOf :: "controller \<Rightarrow> string \<Rightarrow> time" where
  "timeoutOf c name = (case timeouts c name of None \<Rightarrow> zeroTime | Some t \<Rightarrow> t)"

definition Since :: "env \<Rightarrow> time \<Rightarrow> controller \<Rightarrow> duration \<times> controller" where
  "Since e t c = (case Now e c of (now, c') \<Rightarrow> (Sub now t, c'))"

definition refreshBackoff :: "env \<Rightarrow> Pod \<Rightarrow> ContainerStatus \<Rightarrow> controller \<Rightarrow> bool \<times> controller" where
  "refreshBackoff e pod container c =
     (let backoff = backoffWindow pod
      in case Since e (timeoutOf c (Name pod)) c of
           (elapsed, c1) \<Rightarrow>
             if elapsed < backoff then (False, c1)
             else (case Now e c1 of
                     (now, c2) \<Rightarrow> (True, c2\<lparr>timeouts := (timeouts c2)(Name pod \<mapsto> now)\<rparr>)))"

definition clearTimeout :: "Pod \<Rightarrow> controller \<Rightarrow> controller" where
  "clearTimeout pod c = c\<lparr>timeouts := (timeouts c)(Name pod := None)\<rparr>"

subsection \<open>Alerts\<close>

text \<open>
  \<^verbatim>\<open>sendCrashNotification\<close> drops the error of the log request and keeps its bytes, and it
  drops whatever the chat client returns: it has no result of its own.
\<close>

definition crashMessage :: "Pod \<Rightarrow> ContainerStatus \<Rightarrow> string" where
  "crashMessage pod container =
     ''Container '' @ ContainerName container @ '' of pod '' @ Name pod @
     '' keeps crashing, maybe its time to intervene.''"

definition fence :: string where
  "fence = [CHR 0x60, CHR 0x60, CHR 0x60]"

definition crashAttachment :: "Pod \<Rightarrow> ContainerStatus \<Rightarrow> string \<Rightarrow> SlackAttachment" where
  "crashAttachment pod container logs =
     \<lparr>Color = ''#AD2200'',
      Text = crashMessage pod container,
      Title = ''Crash loop detected!'',
      Fields =
        [(''Logs'', fence @ [CHR 0x0A] @ logs @ fence)] @
        (case LastTerminated container of
           None \<Rightarrow> []
         | Some reason \<Rightarrow> [(''Reason'', reason)])\<rparr>"

definition sendCrashNotification :: "env \<Rightarrow> Pod \<Rightarrow> ContainerStatus \<Rightarrow> controller \<Rightarrow> controller" where
  "sendCrashNotification e pod container c =
     (case GetLogs e (Namespace pod) (Name pod) (ContainerName container) of
        (logs, _) \<Rightarrow>
          (let attachment = crashAttachment pod container logs
           in c\<lparr>posts := posts c @ [(attachment, SendAttachements e (length (posts c)) attachment)]\<rparr>))"

text \<open>The body of the loop of \<^verbatim>\<open>handlePodUpdate\<close>, and the loop over the container statuses.\<close>

definition handleContainer :: "env \<Rightarrow> Pod \<Rightarrow> ContainerStatus \<Rightarrow> controller \<Rightarrow> controller" where
  "handleContainer e pod container c =
     (if \<not> Ready container \<and> Waiting container \<noteq> None \<and> hasValidAnnotation pod
      then (if Waiting container = Some ''CrashLoopBackOff''
            then (case refreshBackoff e pod container c of
                    (ok, c') \<Rightarrow> if \<not> ok then c' else sendCrashNotification e pod container c')
            else c)
      else c)"

definition handlePodUpdate :: "env \<Rightarrow> Pod \<Rightarrow> controller \<Rightarrow> controller" where
  "handlePodUpdate e pod c = fold (handleContainer e pod) (ContainerStatuses pod) c"

subsection \<open>One pass over a key\<close>

text \<open>
  \<^verbatim>\<open>syncToStdout\<close> either returns an error value (\<open>None\<close> for nil) or panics: the type
  assertion \<^verbatim>\<open>obj.(*v1.Pod)\<close> panics on a nil interface value.
\<close>

datatype outcome = Panicked | Returned "error option"

definition syncToStdout :: "env \<Rightarrow> string \<Rightarrow> controller \<Rightarrow> outcome \<times> controller" where
  "syncToStdout e key c =
     (case GetByKey e key of
        (obj, exists, err) \<Rightarrow>
          if err \<noteq> None then (Returned err, c)
          else if \<not> exists
          then (case obj of
                  None \<Rightarrow> (Panicked, c)
                | Some pod \<Rightarrow> (Returned None, clearTimeout pod c))
          else (case obj of
                  None \<Rightarrow> (Panicked, c)
                | Some pod \<Rightarrow> (Returned None, handlePodUpdate e pod c)))"

definition handleErr :: "error option \<Rightarrow> string \<Rightarrow> controller \<Rightarrow> controller" where
  "handleErr err key c =
     (case err of
        None \<Rightarrow> Forget key c
      | Some e \<Rightarrow>
          if NumRequeues c key < 5 then AddRateLimited key c
          else HandleError e (Forget key c))"

text \<open>
  \<^verbatim>\<open>processNextItem\<close> for a key the queue has handed out: \<open>None\<close> when the pass panics (the
  panic leaves the worker), else the state after the error handler.
\<close>

definition processNextItem :: "env \<Rightarrow> string \<Rightarrow> controller \<Rightarrow> controller option" where
  "processNextItem e key c =
     (case syncToStdout e key c of
        (Panicked, _) \<Rightarrow> None
      | (Returned err, c') \<Rightarrow> Some (handleErr err key c'))"

text \<open>
  The indexer the controller is built with is the thread-safe store of client-go: its
  \<^verbatim>\<open>GetByKey\<close> reads a map of objects, so a key it does not hold gives a nil object, and
  it never returns an error.
\<close>

definition storeGetByKey :: "(string \<rightharpoonup> Pod) \<Rightarrow> string \<Rightarrow> Pod option \<times> bool \<times> error option" where
  "storeGetByKey items key = (items key, items key \<noteq> None, None)"

section \<open>Example inputs\<close>

text \<open>
  A container in the crash loop, a pod with one such container, the opt-in annotation, a
  clock that starts in the year 2026 and advances by a nanosecond per reading, and an
  environment over the store of client-go.
\<close>

definition crashingContainer :: "string \<Rightarrow> ContainerStatus" where
  "crashingContainer n =
     \<lparr>ContainerName = n, Ready = False, Waiting = Some ''CrashLoopBackOff'',
      LastTerminated = Some ''Error''\<rparr>"

definition examplePod :: "string \<Rightarrow> string \<Rightarrow> (string \<rightharpoonup> string) \<Rightarrow> Pod" where
  "examplePod ns n anns =
     \<lparr>Namespace = ns, Name = n, Annotations = anns,
      ContainerStatuses = [crashingContainer ''main'']\<rparr>"

definition informAnnotations :: "string \<rightharpoonup> string" where
  "informAnnotations = [annotationEnableMattermost \<mapsto> annotationEnableMattermostInform]"

definition startTime :: time where
  "startTime = 63900000000 * Second"

definition exampleEnv ::
  "time \<Rightarrow> string \<times> error option \<Rightarrow> error option \<Rightarrow> (string \<rightharpoonup> Pod) \<Rightarrow> env" where
  "exampleEnv t0 logs sendErr items =
     \<lparr>clock = (\<lambda>n. t0 + int n),
      GetLogs = (\<lambda>ns p k. logs),
      SendAttachements = (\<lambda>n a. sendErr),
      GetByKey = storeGetByKey items\<rparr>"

text \<open>Two pods of the same name in two namespaces, both opted in and crash-looping.\<close>

definition twoNamespaces :: "string \<rightharpoonup> Pod" where
  "twoNamespaces =
     [''default/web'' \<mapsto> examplePod ''default'' ''web'' informAnnotations,
      ''staging/web'' \<mapsto> examplePod ''staging'' ''web'' informAnnotations]"

text \<open>A store that holds one pod under its key.\<close>

definition onePod :: "Pod \<Rightarrow> string \<rightharpoonup> Pod" where
  "onePod pod = [Namespace pod @ ''/'' @ Name pod \<mapsto> pod]"

section \<open>The back-off window and the debounce check\<close>

lemma wrap64_range: "minDuration \<le> wrap64 x \<and> wrap64 x \<le> maxDuration"
proof -
  have "0 \<le> (x + 2 ^ 63) mod (2 ^ 64 :: int)" by simp
  moreover have "(x + 2 ^ 63) mod (2 ^ 64 :: int) < 2 ^ 64" by simp
  ultimately show ?thesis by (simp add: wrap64_def minDuration_def maxDuration_def)
qed

lemma default_range:
  "minDuration \<le> annotationMattermostBackoffDefault
   \<and> annotationMattermostBackoffDefault \<le> maxDuration"
  by (simp add: annotationMattermostBackoffDefault_def Minute_def Second_def
      minDuration_def maxDuration_def)

lemma backoffWindow_range: "minDuration \<le> backoffWindow pod \<and> backoffWindow pod \<le> maxDuration"
  using wrap64_range default_range
  by (simp add: backoffWindow_def Let_def split: prod.split)

text \<open>\<^verbatim>\<open>refreshBackoff\<close> with its clock readings written out.\<close>

lemma refreshBackoff_unfold:
  "refreshBackoff e pod container c =
     (if Sub (clock e (ticks c)) (timeoutOf c (Name pod)) < backoffWindow pod
      then (False, c\<lparr>ticks := Suc (ticks c)\<rparr>)
      else (True, c\<lparr>ticks := Suc (Suc (ticks c)),
                     timeouts := (timeouts c)(Name pod \<mapsto> clock e (Suc (ticks c)))\<rparr>))"
  by (simp add: refreshBackoff_def Since_def Now_def Let_def)

lemma Sub_fresh: "maxDuration \<le> t \<Longrightarrow> Sub t zeroTime = maxDuration"
  by (simp add: Sub_def zeroTime_def Let_def minDuration_def maxDuration_def)

lemma Sub_within: "u \<le> t \<Longrightarrow> t - u < w \<Longrightarrow> w \<le> maxDuration \<Longrightarrow> Sub t u = t - u"
  by (simp add: Sub_def Let_def minDuration_def maxDuration_def)

lemma Sub_elapsed:
  "w \<le> t - u \<Longrightarrow> minDuration \<le> w \<Longrightarrow> w \<le> maxDuration \<Longrightarrow> w \<le> Sub t u"
  by (simp add: Sub_def Let_def)

text \<open>
  Claim C4. For every pod, with the pod's name as the key and \<open>backoffWindow pod\<close> as the
  window: the debounce check passes for a name that has no stored timestamp (the clock
  reading lies more than the largest duration after the zero time, as any present date
  does); it fails while the reading is less than the window after the stored timestamp; it
  passes when the window or more has elapsed since the stored timestamp; and the stored
  timestamp becomes the next clock reading when the check passes, while the map is left as
  it was when the check fails.
\<close>

theorem refreshBackoff_window:
  "(timeouts c (Name pod) = None \<and> maxDuration \<le> clock e (ticks c)
      \<longrightarrow> fst (refreshBackoff e pod container c))
   \<and> (\<forall>last. timeouts c (Name pod) = Some last \<and> last \<le> clock e (ticks c)
         \<and> clock e (ticks c) - last < backoffWindow pod
      \<longrightarrow> \<not> fst (refreshBackoff e pod container c))
   \<and> (\<forall>last. timeouts c (Name pod) = Some last
         \<and> backoffWindow pod \<le> clock e (ticks c) - last
      \<longrightarrow> fst (refreshBackoff e pod container c))
   \<and> (fst (refreshBackoff e pod container c)
      \<longrightarrow> timeouts (snd (refreshBackoff e pod container c))
          = (timeouts c)(Name pod \<mapsto> clock e (Suc (ticks c))))
   \<and> (\<not> fst (refreshBackoff e pod container c)
      \<longrightarrow> timeouts (snd (refreshBackoff e pod container c)) = timeouts c)"
proof (intro conjI allI impI)
  assume "timeouts c (Name pod) = None \<and> maxDuration \<le> clock e (ticks c)"
  then have "Sub (clock e (ticks c)) (timeoutOf c (Name pod)) = maxDuration"
    by (simp add: timeoutOf_def Sub_fresh)
  then show "fst (refreshBackoff e pod container c)"
    using backoffWindow_range [of pod] by (simp add: refreshBackoff_unfold)
next
  fix last
  assume h: "timeouts c (Name pod) = Some last \<and> last \<le> clock e (ticks c)
    \<and> clock e (ticks c) - last < backoffWindow pod"
  then have "Sub (clock e (ticks c)) (timeoutOf c (Name pod)) = clock e (ticks c) - last"
    using backoffWindow_range [of pod]
      Sub_within [of last "clock e (ticks c)" "backoffWindow pod"]
    by (simp add: timeoutOf_def)
  with h show "\<not> fst (refreshBackoff e pod container c)"
    by (simp add: refreshBackoff_unfold)
next
  fix last
  assume h: "timeouts c (Name pod) = Some last \<and> backoffWindow pod \<le> clock e (ticks c) - last"
  then have "backoffWindow pod \<le> Sub (clock e (ticks c)) (timeoutOf c (Name pod))"
    using backoffWindow_range [of pod]
      Sub_elapsed [of "backoffWindow pod" "clock e (ticks c)" last]
    by (simp add: timeoutOf_def)
  then show "fst (refreshBackoff e pod container c)"
    by (simp add: refreshBackoff_unfold)
next
  assume "fst (refreshBackoff e pod container c)"
  then show "timeouts (snd (refreshBackoff e pod container c))
          = (timeouts c)(Name pod \<mapsto> clock e (Suc (ticks c)))"
    by (simp add: refreshBackoff_unfold split: if_splits)
next
  assume "\<not> fst (refreshBackoff e pod container c)"
  then show "timeouts (snd (refreshBackoff e pod container c)) = timeouts c"
    by (simp add: refreshBackoff_unfold split: if_splits)
qed

lemma backoffWindow_podA:
  "backoffWindow (examplePod ''default'' ''pod-a'' informAnnotations) = 10 * Minute"
  by (simp add: backoffWindow_def examplePod_def informAnnotations_def GetAnnotation_def
      annotationMattermostBackoff_def annotationEnableMattermost_def
      annotationMattermostBackoffDefault_def)

theorem refreshBackoff_window_witness:
  "fst (refreshBackoff (exampleEnv startTime ([], None) None Map.empty)
          (examplePod ''default'' ''pod-a'' informAnnotations) (crashingContainer ''main'')
          NewController)
   \<and> timeouts (snd (refreshBackoff (exampleEnv startTime ([], None) None Map.empty)
          (examplePod ''default'' ''pod-a'' informAnnotations) (crashingContainer ''main'')
          NewController)) = [''pod-a'' \<mapsto> startTime + 1]
   \<and> \<not> fst (refreshBackoff (exampleEnv (startTime + Minute) ([], None) None Map.empty)
          (examplePod ''default'' ''pod-a'' informAnnotations) (crashingContainer ''main'')
          (NewController\<lparr>timeouts := [''pod-a'' \<mapsto> startTime]\<rparr>))
   \<and> timeouts (snd (refreshBackoff (exampleEnv (startTime + Minute) ([], None) None Map.empty)
          (examplePod ''default'' ''pod-a'' informAnnotations) (crashingContainer ''main'')
          (NewController\<lparr>timeouts := [''pod-a'' \<mapsto> startTime]\<rparr>)))
       = [''pod-a'' \<mapsto> startTime]
   \<and> fst (refreshBackoff (exampleEnv (startTime + 10 * Minute) ([], None) None Map.empty)
          (examplePod ''default'' ''pod-a'' informAnnotations) (crashingContainer ''main'')
          (NewController\<lparr>timeouts := [''pod-a'' \<mapsto> startTime]\<rparr>))"
proof -
  let ?pod = "examplePod ''default'' ''pod-a'' informAnnotations"
  let ?k = "crashingContainer ''main''"
  let ?c1 = "NewController\<lparr>timeouts := [''pod-a'' \<mapsto> startTime]\<rparr>"
  let ?e0 = "exampleEnv startTime ([], None) None Map.empty"
  let ?e1 = "exampleEnv (startTime + Minute) ([], None) None Map.empty"
  let ?e2 = "exampleEnv (startTime + 10 * Minute) ([], None) None Map.empty"
  have n: "Name ?pod = ''pod-a''" by (simp add: examplePod_def)
  have fresh: "timeouts NewController (Name ?pod) = None
      \<and> maxDuration \<le> clock ?e0 (ticks NewController)"
    by (simp add: NewController_def exampleEnv_def startTime_def Second_def maxDuration_def)
  have within: "timeouts ?c1 (Name ?pod) = Some startTime
      \<and> startTime \<le> clock ?e1 (ticks ?c1)
      \<and> clock ?e1 (ticks ?c1) - startTime < backoffWindow ?pod"
    by (simp add: n backoffWindow_podA NewController_def exampleEnv_def Minute_def Second_def)
  have elapsed: "timeouts ?c1 (Name ?pod) = Some startTime
      \<and> backoffWindow ?pod \<le> clock ?e2 (ticks ?c1) - startTime"
    by (simp add: n backoffWindow_podA NewController_def exampleEnv_def)
  have a: "fst (refreshBackoff ?e0 ?pod ?k NewController)"
    using refreshBackoff_window [of NewController ?pod ?e0 ?k] fresh by blast
  have b: "timeouts (snd (refreshBackoff ?e0 ?pod ?k NewController)) = [''pod-a'' \<mapsto> startTime + 1]"
    using refreshBackoff_window [of NewController ?pod ?e0 ?k] a
    by (simp add: n NewController_def exampleEnv_def)
  have c: "\<not> fst (refreshBackoff ?e1 ?pod ?k ?c1)"
    using refreshBackoff_window [of ?c1 ?pod ?e1 ?k] within by blast
  have d: "timeouts (snd (refreshBackoff ?e1 ?pod ?k ?c1)) = [''pod-a'' \<mapsto> startTime]"
    using refreshBackoff_window [of ?c1 ?pod ?e1 ?k] c by simp
  have f: "fst (refreshBackoff ?e2 ?pod ?k ?c1)"
    using refreshBackoff_window [of ?c1 ?pod ?e2 ?k] elapsed by blast
  show ?thesis using a b c d f by simp
qed

section \<open>The error handler\<close>

lemma handleErr_nil: "handleErr None key c = Forget key c"
  by (simp add: handleErr_def)

lemma handleErr_retry:
  "NumRequeues c key < 5 \<Longrightarrow> handleErr (Some err) key c = AddRateLimited key c"
  by (simp add: handleErr_def)

lemma handleErr_drop:
  "\<not> NumRequeues c key < 5 \<Longrightarrow> handleErr (Some err) key c = HandleError err (Forget key c)"
  by (simp add: handleErr_def)

lemma NumRequeues_AddRateLimited:
  "NumRequeues (AddRateLimited key c) key = NumRequeues c key + 1"
  by (simp add: NumRequeues_def AddRateLimited_def)

lemma NumRequeues_Forget: "NumRequeues (Forget key c) key = 0"
  by (simp add: NumRequeues_def Forget_def)

lemma delayed_AddRateLimited: "delayed (AddRateLimited key c) = delayed c @ [key]"
  by (simp add: AddRateLimited_def)

lemma reported_AddRateLimited: "reported (AddRateLimited key c) = reported c"
  by (simp add: AddRateLimited_def)

text \<open>A run of failures of one key, each handed to the error handler in turn.\<close>

lemma failures_within_budget:
  "NumRequeues c key + length errs \<le> 5 \<Longrightarrow>
     NumRequeues (fold (\<lambda>err. handleErr (Some err) key) errs c) key
       = NumRequeues c key + length errs
     \<and> delayed (fold (\<lambda>err. handleErr (Some err) key) errs c)
       = delayed c @ replicate (length errs) key
     \<and> reported (fold (\<lambda>err. handleErr (Some err) key) errs c) = reported c"
proof (induction errs arbitrary: c)
  case Nil
  then show ?case by simp
next
  case (Cons err errs)
  then have lt: "NumRequeues c key < 5" by simp
  let ?c = "AddRateLimited key c"
  have step: "handleErr (Some err) key c = ?c"
    using lt by (rule handleErr_retry)
  have "NumRequeues ?c key + length errs \<le> 5"
    using Cons.prems by (simp add: NumRequeues_AddRateLimited)
  from Cons.IH [OF this] show ?case
    by (simp add: step NumRequeues_AddRateLimited delayed_AddRateLimited
        reported_AddRateLimited replicate_app_Cons_same)
qed

text \<open>
  Claim C5. On a nil error the handler resets the key's failure count and neither
  schedules the key nor reports anything. On an error it schedules the key again
  (\<^verbatim>\<open>AddRateLimited\<close>, which counts one more failure) exactly while the count is below 5;
  otherwise it resets the count, reports the error and does not schedule the key. So from a
  count of 0, five failures in a row are each retried, and the sixth resets the count,
  reports its error and is not retried.
\<close>

theorem handleErr_retry_budget:
  "NumRequeues (handleErr None key c) key = 0
   \<and> delayed (handleErr None key c) = delayed c
   \<and> reported (handleErr None key c) = reported c
   \<and> (NumRequeues c key < 5 \<longrightarrow>
        NumRequeues (handleErr (Some err) key c) key = NumRequeues c key + 1
        \<and> delayed (handleErr (Some err) key c) = delayed c @ [key]
        \<and> reported (handleErr (Some err) key c) = reported c)
   \<and> (\<not> NumRequeues c key < 5 \<longrightarrow>
        NumRequeues (handleErr (Some err) key c) key = 0
        \<and> delayed (handleErr (Some err) key c) = delayed c
        \<and> reported (handleErr (Some err) key c) = reported c @ [err])
   \<and> (NumRequeues c key = 0 \<and> length errs = 5 \<longrightarrow>
        delayed (fold (\<lambda>err. handleErr (Some err) key) errs c) = delayed c @ replicate 5 key
        \<and> reported (fold (\<lambda>err. handleErr (Some err) key) errs c) = reported c
        \<and> NumRequeues (fold (\<lambda>err. handleErr (Some err) key) (errs @ [err]) c) key = 0
        \<and> delayed (fold (\<lambda>err. handleErr (Some err) key) (errs @ [err]) c)
            = delayed c @ replicate 5 key
        \<and> reported (fold (\<lambda>err. handleErr (Some err) key) (errs @ [err]) c)
            = reported c @ [err])"
proof (intro conjI impI)
  show "NumRequeues (handleErr None key c) key = 0"
    by (simp add: handleErr_nil NumRequeues_Forget)
  show "delayed (handleErr None key c) = delayed c"
    by (simp add: handleErr_nil Forget_def)
  show "reported (handleErr None key c) = reported c"
    by (simp add: handleErr_nil Forget_def)
next
  assume lt: "NumRequeues c key < 5"
  show "NumRequeues (handleErr (Some err) key c) key = NumRequeues c key + 1"
    by (simp add: handleErr_retry [OF lt] NumRequeues_AddRateLimited)
  show "delayed (handleErr (Some err) key c) = delayed c @ [key]"
    by (simp add: handleErr_retry [OF lt] AddRateLimited_def)
  show "reported (handleErr (Some err) key c) = reported c"
    by (simp add: handleErr_retry [OF lt] AddRateLimited_def)
next
  assume ge: "\<not> NumRequeues c key < 5"
  show "NumRequeues (handleErr (Some err) key c) key = 0"
    by (simp add: handleErr_drop [OF ge] NumRequeues_def HandleError_def Forget_def)
  show "delayed (handleErr (Some err) key c) = delayed c"
    by (simp add: handleErr_drop [OF ge] HandleError_def Forget_def)
  show "reported (handleErr (Some err) key c) = reported c @ [err]"
    by (simp add: handleErr_drop [OF ge] HandleError_def Forget_def)
next
  assume h: "NumRequeues c key = 0 \<and> length errs = 5"
  let ?c5 = "fold (\<lambda>err. handleErr (Some err) key) errs c"
  have five: "NumRequeues ?c5 key = 5 \<and> delayed ?c5 = delayed c @ replicate 5 key
      \<and> reported ?c5 = reported c"
    using failures_within_budget [of c key errs] h by simp
  then have ge: "\<not> NumRequeues ?c5 key < 5" by simp
  show "delayed ?c5 = delayed c @ replicate 5 key" using five by simp
  show "reported ?c5 = reported c" using five by simp
  show "NumRequeues (fold (\<lambda>err. handleErr (Some err) key) (errs @ [err]) c) key = 0"
    by (simp add: handleErr_drop [OF ge] NumRequeues_def HandleError_def Forget_def)
  show "delayed (fold (\<lambda>err. handleErr (Some err) key) (errs @ [err]) c)
      = delayed c @ replicate 5 key"
    using five by (simp add: handleErr_drop [OF ge] HandleError_def Forget_def)
  show "reported (fold (\<lambda>err. handleErr (Some err) key) (errs @ [err]) c) = reported c @ [err]"
    using five by (simp add: handleErr_drop [OF ge] HandleError_def Forget_def)
qed

theorem handleErr_retry_budget_witness:
  "NumRequeues NewController ''default/pod-a'' < 5
   \<and> delayed (handleErr (Some (Err ''timeout'')) ''default/pod-a'' NewController)
       = [''default/pod-a'']
   \<and> NumRequeues (handleErr (Some (Err ''timeout'')) ''default/pod-a'' NewController)
       ''default/pod-a'' = 1
   \<and> \<not> NumRequeues (NewController\<lparr>failures := [''default/pod-a'' \<mapsto> 5]\<rparr>) ''default/pod-a'' < 5
   \<and> reported (handleErr (Some (Err ''timeout'')) ''default/pod-a''
        (NewController\<lparr>failures := [''default/pod-a'' \<mapsto> 5]\<rparr>)) = [Err ''timeout'']
   \<and> delayed (handleErr (Some (Err ''timeout'')) ''default/pod-a''
        (NewController\<lparr>failures := [''default/pod-a'' \<mapsto> 5]\<rparr>)) = []
   \<and> delayed (fold (\<lambda>err. handleErr (Some err) ''default/pod-a'')
        (replicate 5 (Err ''timeout'') @ [Err ''timeout'']) NewController)
       = replicate 5 ''default/pod-a''
   \<and> reported (fold (\<lambda>err. handleErr (Some err) ''default/pod-a'')
        (replicate 5 (Err ''timeout'') @ [Err ''timeout'']) NewController) = [Err ''timeout'']
   \<and> NumRequeues (fold (\<lambda>err. handleErr (Some err) ''default/pod-a'')
        (replicate 5 (Err ''timeout'') @ [Err ''timeout'']) NewController) ''default/pod-a'' = 0"
proof -
  let ?k = "''default/pod-a''"
  let ?err = "Err ''timeout''"
  let ?c5 = "NewController\<lparr>failures := [?k \<mapsto> 5]\<rparr>"
  have lt: "NumRequeues NewController ?k < 5"
    by (simp add: NumRequeues_def NewController_def)
  have ge: "\<not> NumRequeues ?c5 ?k < 5"
    by (simp add: NumRequeues_def)
  have start: "NumRequeues NewController ?k = 0 \<and> length (replicate 5 ?err) = 5"
    by (simp add: NumRequeues_def NewController_def)
  have a: "delayed (handleErr (Some ?err) ?k NewController) = [?k]
      \<and> NumRequeues (handleErr (Some ?err) ?k NewController) ?k = 1"
    using handleErr_retry_budget [of ?k NewController ?err "[]"] lt start
    by (simp add: NewController_def)
  have b: "reported (handleErr (Some ?err) ?k ?c5) = [?err]
      \<and> delayed (handleErr (Some ?err) ?k ?c5) = []"
    using handleErr_retry_budget [of ?k ?c5 ?err "[]"] ge
    by (simp add: NewController_def)
  have c: "delayed (fold (\<lambda>err. handleErr (Some err) ?k) (replicate 5 ?err @ [?err]) NewController)
        = replicate 5 ?k
      \<and> reported (fold (\<lambda>err. handleErr (Some err) ?k) (replicate 5 ?err @ [?err]) NewController)
        = [?err]
      \<and> NumRequeues (fold (\<lambda>err. handleErr (Some err) ?k) (replicate 5 ?err @ [?err]) NewController)
        ?k = 0"
    using handleErr_retry_budget [of ?k NewController ?err "replicate 5 ?err"] start
    by (simp add: NewController_def)
  show ?thesis using lt ge a b c by simp
qed

section \<open>What changes the map of timestamps\<close>

lemma timeouts_sendCrashNotification:
  "timeouts (sendCrashNotification e pod container c) = timeouts c"
  by (simp add: sendCrashNotification_def Let_def split: prod.split)

lemma dom_refreshBackoff:
  "dom (timeouts c) \<subseteq> dom (timeouts (snd (refreshBackoff e pod container c)))"
  by (auto simp: refreshBackoff_unfold)

lemma dom_handleContainer:
  "dom (timeouts c) \<subseteq> dom (timeouts (handleContainer e pod container c))"
proof (cases "refreshBackoff e pod container c")
  case (Pair ok c')
  then have "dom (timeouts c) \<subseteq> dom (timeouts c')"
    using dom_refreshBackoff [of c e pod container] by simp
  with Pair show ?thesis
    by (simp add: handleContainer_def timeouts_sendCrashNotification)
qed

lemma dom_fold_handleContainer:
  "dom (timeouts c) \<subseteq> dom (timeouts (fold (handleContainer e pod) cs c))"
proof (induction cs arbitrary: c)
  case Nil
  then show ?case by simp
next
  case (Cons k cs)
  have "dom (timeouts c) \<subseteq> dom (timeouts (handleContainer e pod k c))"
    by (rule dom_handleContainer)
  also have "\<dots> \<subseteq> dom (timeouts (fold (handleContainer e pod) cs (handleContainer e pod k c)))"
    by (rule Cons.IH)
  finally show ?case by simp
qed

lemma timeouts_handleErr: "timeouts (handleErr err key c) = timeouts c"
  by (simp add: handleErr_def Forget_def AddRateLimited_def HandleError_def split: option.split)

text \<open>
  Claim C10. A debounce check that fails leaves the map of timestamps as it was. No check,
  no pass over a pod's containers and no call of the error handler removes a name from the
  map: its domain only grows. \<^verbatim>\<open>clearTimeout\<close> is the operation that removes a name.
\<close>

theorem suppressed_check_keeps_timeouts:
  "(\<not> fst (refreshBackoff e pod container c)
      \<longrightarrow> timeouts (snd (refreshBackoff e pod container c)) = timeouts c)
   \<and> dom (timeouts c) \<subseteq> dom (timeouts (snd (refreshBackoff e pod container c)))
   \<and> dom (timeouts c) \<subseteq> dom (timeouts (handlePodUpdate e pod c))
   \<and> timeouts (handleErr err key c) = timeouts c
   \<and> timeouts (clearTimeout pod c) = (timeouts c)(Name pod := None)"
proof (intro conjI impI)
  assume "\<not> fst (refreshBackoff e pod container c)"
  then show "timeouts (snd (refreshBackoff e pod container c)) = timeouts c"
    by (simp add: refreshBackoff_unfold split: if_splits)
next
  show "dom (timeouts c) \<subseteq> dom (timeouts (snd (refreshBackoff e pod container c)))"
    by (rule dom_refreshBackoff)
  show "dom (timeouts c) \<subseteq> dom (timeouts (handlePodUpdate e pod c))"
    unfolding handlePodUpdate_def by (rule dom_fold_handleContainer)
  show "timeouts (handleErr err key c) = timeouts c"
    by (rule timeouts_handleErr)
  show "timeouts (clearTimeout pod c) = (timeouts c)(Name pod := None)"
    by (simp add: clearTimeout_def)
qed

lemma Name_examplePod: "Name (examplePod ns n anns) = n"
  by (simp add: examplePod_def)

lemma check_suppressed_example:
  "\<not> fst (refreshBackoff (exampleEnv (startTime + 5 * Minute) ([], None) None Map.empty)
          (examplePod ''default'' ''pod-a'' informAnnotations) (crashingContainer ''main'')
          (NewController\<lparr>timeouts := [''pod-a'' \<mapsto> startTime]\<rparr>))"
  by (simp add: refreshBackoff_unfold backoffWindow_podA Name_examplePod timeoutOf_def
      Sub_def Let_def exampleEnv_def NewController_def Minute_def Second_def
      maxDuration_def minDuration_def)

theorem suppressed_check_keeps_timeouts_witness:
  "\<not> fst (refreshBackoff (exampleEnv (startTime + 5 * Minute) ([], None) None Map.empty)
          (examplePod ''default'' ''pod-a'' informAnnotations) (crashingContainer ''main'')
          (NewController\<lparr>timeouts := [''pod-a'' \<mapsto> startTime]\<rparr>))
   \<and> timeouts (snd (refreshBackoff (exampleEnv (startTime + 5 * Minute) ([], None) None Map.empty)
          (examplePod ''default'' ''pod-a'' informAnnotations) (crashingContainer ''main'')
          (NewController\<lparr>timeouts := [''pod-a'' \<mapsto> startTime]\<rparr>)))
       = [''pod-a'' \<mapsto> startTime]"
  using check_suppressed_example
    suppressed_check_keeps_timeouts
      [of "exampleEnv (startTime + 5 * Minute) ([], None) None Map.empty"
          "examplePod ''default'' ''pod-a'' informAnnotations" "crashingContainer ''main''"
          "NewController\<lparr>timeouts := [''pod-a'' \<mapsto> startTime]\<rparr>"]
  by simp

section \<open>The override annotation\<close>

text \<open>The definitions \<^verbatim>\<open>strconv.Atoi\<close> unfolds to, for evaluating it on a string.\<close>

lemmas atoi_defs = Atoi_def ParseInt_def ParseUint_def isDigit_def digitVal_def Let_def

text \<open>
  The range error of a number too large for 64 bits comes at the digit that overflows,
  before a later byte that is not a digit is seen; one digit less and the same byte is
  a syntax error.
\<close>

lemma Atoi_overflow_before_syntax:
  "Atoi ''99999999999999999999x'' = (2 ^ 63 - 1, Some ErrRange)
   \<and> Atoi ''9999999999999999999x'' = (0, Some ErrSyntax)"
  by (simp add: atoi_defs)

lemma GetAnnotation_backoff:
  "GetAnnotation (examplePod ns n (informAnnotations(annotationMattermostBackoff \<mapsto> v)))
     annotationMattermostBackoff = v"
  by (simp add: GetAnnotation_def examplePod_def)

text \<open>
  Whatever number a well-formed annotation carries, the window stays the default: the
  number is used only on the branch where \<^verbatim>\<open>strconv.Atoi\<close> returned an error.
\<close>

lemma backoffWindow_parsed:
  "Atoi (GetAnnotation pod annotationMattermostBackoff) = (seconds, None)
     \<Longrightarrow> backoffWindow pod = annotationMattermostBackoffDefault"
  by (simp add: backoffWindow_def Let_def)

lemma backoffWindow_failed:
  "GetAnnotation pod annotationMattermostBackoff \<noteq> []
     \<Longrightarrow> Atoi (GetAnnotation pod annotationMattermostBackoff) = (seconds, Some err)
     \<Longrightarrow> backoffWindow pod = wrap64 (seconds * Second)"
  by (simp add: backoffWindow_def Let_def)

text \<open>
  Claim C1, at the annotation \<^verbatim>\<open>espe.tech/mattermost-backoff = "60"\<close>: the number parses,
  the window is still 10 minutes, and a check 61 seconds after the stored timestamp is
  suppressed, where a window of 60 seconds would let it pass.
\<close>

theorem backoff_override_not_applied:
  "Atoi ''60'' = (60, None)
   \<and> backoffWindow (examplePod ''default'' ''pod-a''
        (informAnnotations(annotationMattermostBackoff \<mapsto> ''60''))) = 10 * Minute
   \<and> fst (refreshBackoff (exampleEnv (startTime + 61 * Second) ([], None) None Map.empty)
        (examplePod ''default'' ''pod-a''
          (informAnnotations(annotationMattermostBackoff \<mapsto> ''60'')))
        (crashingContainer ''main'')
        (NewController\<lparr>timeouts := [''pod-a'' \<mapsto> startTime]\<rparr>)) = False"
proof -
  have a: "Atoi ''60'' = (60, None)" by (simp add: atoi_defs)
  have w: "backoffWindow (examplePod ''default'' ''pod-a''
        (informAnnotations(annotationMattermostBackoff \<mapsto> ''60''))) = 10 * Minute"
    by (simp add: backoffWindow_def GetAnnotation_backoff a annotationMattermostBackoffDefault_def)
  show ?thesis
    by (simp add: a w refreshBackoff_unfold Name_examplePod timeoutOf_def Sub_def Let_def
      exampleEnv_def NewController_def Minute_def Second_def maxDuration_def minDuration_def)
qed

text \<open>
  Claim C2, at the annotation \<^verbatim>\<open>espe.tech/mattermost-backoff = "abc"\<close>: the parse fails
  with the value 0, the window becomes 0 seconds and not the default, and a check one
  second after the stored timestamp passes.
\<close>

theorem backoff_malformed_gives_zero_window:
  "Atoi ''abc'' = (0, Some ErrSyntax)
   \<and> backoffWindow (examplePod ''default'' ''pod-a''
        (informAnnotations(annotationMattermostBackoff \<mapsto> ''abc''))) = 0
   \<and> fst (refreshBackoff (exampleEnv (startTime + Second) ([], None) None Map.empty)
        (examplePod ''default'' ''pod-a''
          (informAnnotations(annotationMattermostBackoff \<mapsto> ''abc'')))
        (crashingContainer ''main'')
        (NewController\<lparr>timeouts := [''pod-a'' \<mapsto> startTime]\<rparr>)) = True"
proof -
  have a: "Atoi ''abc'' = (0, Some ErrSyntax)" by (simp add: atoi_defs)
  have w: "backoffWindow (examplePod ''default'' ''pod-a''
        (informAnnotations(annotationMattermostBackoff \<mapsto> ''abc''))) = 0"
    by (simp add: backoffWindow_def GetAnnotation_backoff a wrap64_def)
  show ?thesis
    by (simp add: a w refreshBackoff_unfold Name_examplePod timeoutOf_def Sub_def Let_def
      exampleEnv_def NewController_def Minute_def Second_def maxDuration_def minDuration_def)
qed

section \<open>A deleted pod\<close>

text \<open>
  Claim C3, at a key the store does not hold: \<^verbatim>\<open>GetByKey\<close> returns a nil object, the type
  assertion on it panics before \<^verbatim>\<open>clearTimeout\<close> is reached, the stored timestamp stays
  and no nil error is returned.
\<close>

theorem deleted_pod_panics:
  "GetByKey (exampleEnv startTime ([], None) None Map.empty) ''default/pod-a''
     = (None, False, None)
   \<and> syncToStdout (exampleEnv startTime ([], None) None Map.empty) ''default/pod-a''
       (NewController\<lparr>timeouts := [''pod-a'' \<mapsto> startTime]\<rparr>)
     = (Panicked, NewController\<lparr>timeouts := [''pod-a'' \<mapsto> startTime]\<rparr>)
   \<and> processNextItem (exampleEnv startTime ([], None) None Map.empty) ''default/pod-a''
       (NewController\<lparr>timeouts := [''pod-a'' \<mapsto> startTime]\<rparr>) = None"
  by (simp add: processNextItem_def syncToStdout_def exampleEnv_def storeGetByKey_def)

section \<open>Whole passes on the example inputs\<close>

text \<open>The definitions a pass unfolds to, for evaluating it on an example.\<close>

lemmas pass_defs =
  processNextItem_def syncToStdout_def handlePodUpdate_def handleContainer_def
  sendCrashNotification_def refreshBackoff_unfold timeoutOf_def Sub_def Let_def
  handleErr_def Forget_def hasValidAnnotation_def GetAnnotation_def backoffWindow_def
  annotationMattermostBackoff_def annotationEnableMattermost_def
  annotationEnableMattermostInform_def annotationMattermostBackoffDefault_def

lemmas example_defs =
  exampleEnv_def storeGetByKey_def examplePod_def crashingContainer_def
  informAnnotations_def NewController_def startTime_def Minute_def Second_def
  maxDuration_def minDuration_def zeroTime_def

subsection \<open>Same name, two namespaces\<close>

lemma first_pass_default_web:
  "processNextItem (exampleEnv startTime ([], None) None twoNamespaces) ''default/web''
     NewController
   = Some (NewController\<lparr>timeouts := [''web'' \<mapsto> startTime + 1],
        posts := [(crashAttachment (examplePod ''default'' ''web'' informAnnotations)
                     (crashingContainer ''main'') [], None)],
        ticks := 2\<rparr>)"
  by (simp add: pass_defs example_defs twoNamespaces_def)

lemma second_pass_staging_web:
  "processNextItem (exampleEnv (startTime + Minute) ([], None) None twoNamespaces)
     ''staging/web''
     (NewController\<lparr>timeouts := [''web'' \<mapsto> startTime + 1],
        posts := [(crashAttachment (examplePod ''default'' ''web'' informAnnotations)
                     (crashingContainer ''main'') [], None)],
        ticks := 2\<rparr>)
   = Some (NewController\<lparr>timeouts := [''web'' \<mapsto> startTime + 1],
        posts := [(crashAttachment (examplePod ''default'' ''web'' informAnnotations)
                     (crashingContainer ''main'') [], None)],
        ticks := 3\<rparr>)"
  by (simp add: pass_defs example_defs twoNamespaces_def)

text \<open>
  Claim C8, at two crash-looping, opted-in pods \<^verbatim>\<open>default/web\<close> and \<^verbatim>\<open>staging/web\<close>: the
  pass for \<^verbatim>\<open>default/web\<close> posts an alert and stores its timestamp under the name
  \<^verbatim>\<open>web\<close>; the pass for \<^verbatim>\<open>staging/web\<close> a minute later finds that timestamp and posts
  nothing. After both passes there is one alert and one timestamp.
\<close>

theorem same_name_shares_timestamp:
  "Option.bind
     (processNextItem (exampleEnv startTime ([], None) None twoNamespaces) ''default/web''
        NewController)
     (processNextItem (exampleEnv (startTime + Minute) ([], None) None twoNamespaces)
        ''staging/web'')
   = Some (NewController\<lparr>timeouts := [''web'' \<mapsto> startTime + 1],
        posts := [(crashAttachment (examplePod ''default'' ''web'' informAnnotations)
                     (crashingContainer ''main'') [], None)],
        ticks := 3\<rparr>)"
  by (simp add: first_pass_default_web second_pass_staging_web)

section \<open>Alerts of a pass\<close>

lemma posts_refreshBackoff: "posts (snd (refreshBackoff e pod container c)) = posts c"
  by (simp add: refreshBackoff_unfold)

lemma posts_sendCrashNotification:
  "posts (sendCrashNotification e pod container c)
     = posts c @
       [(crashAttachment pod container
           (fst (GetLogs e (Namespace pod) (Name pod) (ContainerName container))),
         SendAttachements e (length (posts c))
           (crashAttachment pod container
              (fst (GetLogs e (Namespace pod) (Name pod) (ContainerName container)))))]"
  by (simp add: sendCrashNotification_def Let_def split: prod.split)

lemma handleContainer_unfold:
  "handleContainer e pod container c =
     (if \<not> Ready container \<and> Waiting container = Some ''CrashLoopBackOff''
         \<and> hasValidAnnotation pod
      then (if fst (refreshBackoff e pod container c)
            then sendCrashNotification e pod container (snd (refreshBackoff e pod container c))
            else snd (refreshBackoff e pod container c))
      else c)"
  by (cases "refreshBackoff e pod container c") (auto simp: handleContainer_def)

lemma handleContainer_alert:
  "\<not> Ready container \<Longrightarrow> Waiting container = Some ''CrashLoopBackOff''
     \<Longrightarrow> hasValidAnnotation pod \<Longrightarrow> fst (refreshBackoff e pod container c)
     \<Longrightarrow> handleContainer e pod container c
         = sendCrashNotification e pod container (snd (refreshBackoff e pod container c))"
  by (simp add: handleContainer_unfold)







section \<open>What a pass returns to the error handler\<close>

lemma queue_sendCrashNotification:
  "failures (sendCrashNotification e pod container c) = failures c
   \<and> delayed (sendCrashNotification e pod container c) = delayed c
   \<and> reported (sendCrashNotification e pod container c) = reported c"
  by (simp add: sendCrashNotification_def Let_def split: prod.split)

lemma queue_refreshBackoff:
  "failures (snd (refreshBackoff e pod container c)) = failures c
   \<and> delayed (snd (refreshBackoff e pod container c)) = delayed c
   \<and> reported (snd (refreshBackoff e pod container c)) = reported c"
  by (simp add: refreshBackoff_unfold)

lemma queue_handleContainer:
  "failures (handleContainer e pod container c) = failures c
   \<and> delayed (handleContainer e pod container c) = delayed c
   \<and> reported (handleContainer e pod container c) = reported c"
  by (simp add: handleContainer_unfold queue_sendCrashNotification queue_refreshBackoff)

lemma queue_fold_handleContainer:
  "failures (fold (handleContainer e pod) cs c) = failures c
   \<and> delayed (fold (handleContainer e pod) cs c) = delayed c
   \<and> reported (fold (handleContainer e pod) cs c) = reported c"
  by (induction cs arbitrary: c) (simp_all add: queue_handleContainer)

lemma queue_handlePodUpdate:
  "failures (handlePodUpdate e pod c) = failures c
   \<and> delayed (handlePodUpdate e pod c) = delayed c
   \<and> reported (handlePodUpdate e pod c) = reported c"
  unfolding handlePodUpdate_def by (rule queue_fold_handleContainer)

text \<open>
  When the lookup finds the pod, nothing on the path carries the chat client's result:
  the pass returns nil, the error handler resets the key's failure count, and the key is
  neither scheduled again nor reported. The lookup's own error is returned as it is.
\<close>

lemma found_pod_returns_nil:
  "(\<forall>pod. GetByKey e key = (Some pod, True, None) \<longrightarrow>
      syncToStdout e key c = (Returned None, handlePodUpdate e pod c)
      \<and> processNextItem e key c = Some (Forget key (handlePodUpdate e pod c))
      \<and> map_option delayed (processNextItem e key c) = Some (delayed c)
      \<and> map_option reported (processNextItem e key c) = Some (reported c)
      \<and> map_option (\<lambda>c'. NumRequeues c' key) (processNextItem e key c) = Some 0)
   \<and> (\<forall>obj exists err. GetByKey e key = (obj, exists, Some err) \<longrightarrow>
      syncToStdout e key c = (Returned (Some err), c)
      \<and> processNextItem e key c = Some (handleErr (Some err) key c))"
proof (intro conjI allI impI)
  fix pod
  assume g: "GetByKey e key = (Some pod, True, None)"
  show s: "syncToStdout e key c = (Returned None, handlePodUpdate e pod c)"
    by (simp add: syncToStdout_def g)
  show p: "processNextItem e key c = Some (Forget key (handlePodUpdate e pod c))"
    by (simp add: processNextItem_def s handleErr_def)
  show "map_option delayed (processNextItem e key c) = Some (delayed c)"
    by (simp add: p Forget_def queue_handlePodUpdate)
  show "map_option reported (processNextItem e key c) = Some (reported c)"
    by (simp add: p Forget_def queue_handlePodUpdate)
  show "map_option (\<lambda>c'. NumRequeues c' key) (processNextItem e key c) = Some 0"
    by (simp add: p NumRequeues_Forget)
next
  fix obj exists err
  assume g: "GetByKey e key = (obj, exists, Some err)"
  show s: "syncToStdout e key c = (Returned (Some err), c)"
    by (simp add: syncToStdout_def g)
  show "processNextItem e key c = Some (handleErr (Some err) key c)"
    by (simp add: processNextItem_def s)
qed

text \<open>
  Claim C6, at a pod due an alert and a chat client that refuses the connection: the one
  call of the pass returned an error, the pass returned nil and not that error, the key
  was not scheduled for a retry, and the timestamp of the alert that was not delivered is
  stored, so that later passes inside the window are suppressed.
\<close>

theorem failed_notifier_call_returns_nil:
  "map snd (posts (snd (syncToStdout
       (exampleEnv startTime ([], None) (Some (Err ''connection refused''))
          (onePod (examplePod ''default'' ''pod-a'' informAnnotations)))
       ''default/pod-a'' NewController)))
     = [Some (Err ''connection refused'')]
   \<and> fst (syncToStdout
       (exampleEnv startTime ([], None) (Some (Err ''connection refused''))
          (onePod (examplePod ''default'' ''pod-a'' informAnnotations)))
       ''default/pod-a'' NewController) = Returned None
   \<and> map_option delayed (processNextItem
       (exampleEnv startTime ([], None) (Some (Err ''connection refused''))
          (onePod (examplePod ''default'' ''pod-a'' informAnnotations)))
       ''default/pod-a'' NewController) = Some []
   \<and> map_option timeouts (processNextItem
       (exampleEnv startTime ([], None) (Some (Err ''connection refused''))
          (onePod (examplePod ''default'' ''pod-a'' informAnnotations)))
       ''default/pod-a'' NewController) = Some [''pod-a'' \<mapsto> startTime + 1]"
  by (simp add: pass_defs example_defs onePod_def)

section \<open>The log request\<close>

text \<open>
  Claim C9, amended. When the log request fails, the alert is posted all the same, and
  its first field, \<^verbatim>\<open>Logs\<close>, holds between the code fences the bytes the failed request
  returned, whatever they are. At the loop body, a container that is due an alert gets it
  although the log request failed.
\<close>

theorem log_failure_keeps_alert:
  "(GetLogs e (Namespace pod) (Name pod) (ContainerName container) = (logs, Some err) \<longrightarrow>
      posts (sendCrashNotification e pod container c)
        = posts c @ [(crashAttachment pod container logs,
                      SendAttachements e (length (posts c)) (crashAttachment pod container logs))]
      \<and> hd (Fields (crashAttachment pod container logs))
        = (''Logs'', fence @ [CHR 0x0A] @ logs @ fence))
   \<and> (\<not> Ready container \<and> Waiting container = Some ''CrashLoopBackOff''
       \<and> hasValidAnnotation pod \<and> fst (refreshBackoff e pod container c)
       \<and> snd (GetLogs e (Namespace pod) (Name pod) (ContainerName container)) = Some err \<longrightarrow>
      length (posts (handleContainer e pod container c)) = Suc (length (posts c)))"
proof (intro conjI impI)
  assume g: "GetLogs e (Namespace pod) (Name pod) (ContainerName container) = (logs, Some err)"
  show "posts (sendCrashNotification e pod container c)
        = posts c @ [(crashAttachment pod container logs,
                      SendAttachements e (length (posts c)) (crashAttachment pod container logs))]"
    by (simp add: posts_sendCrashNotification g)
  show "hd (Fields (crashAttachment pod container logs))
        = (''Logs'', fence @ [CHR 0x0A] @ logs @ fence)"
    by (simp add: crashAttachment_def)
next
  assume "\<not> Ready container \<and> Waiting container = Some ''CrashLoopBackOff''
       \<and> hasValidAnnotation pod \<and> fst (refreshBackoff e pod container c)
       \<and> snd (GetLogs e (Namespace pod) (Name pod) (ContainerName container)) = Some err"
  then show "length (posts (handleContainer e pod container c)) = Suc (length (posts c))"
    by (simp add: handleContainer_alert posts_sendCrashNotification posts_refreshBackoff)
qed

theorem log_failure_keeps_alert_witness:
  "GetLogs (exampleEnv startTime ([], Some (Err ''connection refused'')) None Map.empty)
       ''default'' ''pod-a'' ''main'' = ([], Some (Err ''connection refused''))
   \<and> map (Fields \<circ> fst) (posts (sendCrashNotification
        (exampleEnv startTime ([], Some (Err ''connection refused'')) None Map.empty)
        (examplePod ''default'' ''pod-a'' informAnnotations) (crashingContainer ''main'')
        NewController))
      = [[(''Logs'', fence @ [CHR 0x0A] @ fence), (''Reason'', ''Error'')]]
   \<and> length (posts (handleContainer
        (exampleEnv startTime ([], Some (Err ''connection refused'')) None Map.empty)
        (examplePod ''default'' ''pod-a'' informAnnotations) (crashingContainer ''main'')
        NewController)) = 1"
proof -
  let ?e = "exampleEnv startTime ([], Some (Err ''connection refused'')) None Map.empty"
  let ?a = "examplePod ''default'' ''pod-a'' informAnnotations"
  let ?k = "crashingContainer ''main''"
  have g0: "GetLogs ?e ''default'' ''pod-a'' ''main'' = ([], Some (Err ''connection refused''))"
    by (simp add: exampleEnv_def)
  have g: "GetLogs ?e (Namespace ?a) (Name ?a) (ContainerName ?k)
      = ([], Some (Err ''connection refused''))"
    by (simp add: exampleEnv_def)
  have crash: "\<not> Ready ?k \<and> Waiting ?k = Some ''CrashLoopBackOff'' \<and> hasValidAnnotation ?a
      \<and> fst (refreshBackoff ?e ?a ?k NewController)
      \<and> snd (GetLogs ?e (Namespace ?a) (Name ?a) (ContainerName ?k))
          = Some (Err ''connection refused'')"
    by (simp add: pass_defs example_defs)
  have p0: "posts NewController = []" by (simp add: NewController_def)
  have f: "Fields (crashAttachment ?a ?k [])
      = [(''Logs'', fence @ [CHR 0x0A] @ fence), (''Reason'', ''Error'')]"
    by (simp add: crashAttachment_def crashingContainer_def)
  have a: "posts (sendCrashNotification ?e ?a ?k NewController)
      = [(crashAttachment ?a ?k [],
          SendAttachements ?e 0 (crashAttachment ?a ?k []))]"
    using log_failure_keeps_alert [of ?e ?a ?k "[]" "Err ''connection refused''" NewController]
      g p0
    by simp
  have b: "length (posts (handleContainer ?e ?a ?k NewController)) = 1"
    using log_failure_keeps_alert [of ?e ?a ?k "[]" "Err ''connection refused''" NewController]
      crash p0
    by simp
  show ?thesis using g0 a b f by simp
qed

text \<open>
  Claim C9 as stated fails when the failed request comes with bytes, as a request the
  server answers with an error status does (the body of the answer): the alert is posted
  with those bytes in the \<^verbatim>\<open>Logs\<close> field, which is not the field of an empty log.
\<close>

theorem log_failure_with_body_fills_field:
  "GetLogs (exampleEnv startTime (''container main is not available'', Some (Err ''bad request''))
        None Map.empty) ''default'' ''pod-a'' ''main''
     = (''container main is not available'', Some (Err ''bad request''))
   \<and> map (hd \<circ> Fields \<circ> fst) (posts (sendCrashNotification
        (exampleEnv startTime (''container main is not available'', Some (Err ''bad request''))
           None Map.empty)
        (examplePod ''default'' ''pod-a'' informAnnotations) (crashingContainer ''main'')
        NewController))
      = [(''Logs'', fence @ [CHR 0x0A] @ ''container main is not available'' @ fence)]
   \<and> fence @ [CHR 0x0A] @ ''container main is not available'' @ fence
      \<noteq> fence @ [CHR 0x0A] @ fence"
  by (simp add: sendCrashNotification_def crashAttachment_def exampleEnv_def examplePod_def
      crashingContainer_def NewController_def fence_def)

end
